theory Spec2Isabelle
  imports Complex_Main
begin

section \<open>Data model\<close>

text \<open>
  The habit tracker keeps one log object per calendar date, per-habit streak counters
  and two configuration sources: the \<^verbatim>\<open>settings\<close> object inside
  \<^verbatim>\<open>dashboardData\<close> (script.js) and the settings tree served by
  \<^verbatim>\<open>SettingsAuthority\<close> (read by script.js through
  \<^verbatim>\<open>settingsAuthority?.get(path)\<close> and by habitSystem.js through
  \<^verbatim>\<open>settings?.nonNegotiables?.[id]\<close>).

  JavaScript numbers that may be fractional (hours) are rationals; a field that may be
  absent, \<^verbatim>\<open>null\<close> or \<^verbatim>\<open>NaN\<close> is an option. Streak
  counters are integers.
\<close>

datatype day_state = NOT_COUNTED | COMPLETED | MISSED | NOT_STARTED | IN_PROGRESS

record day_log =
  date :: string
  wakeUp :: "string option"
  sleptOnTime :: "bool option"
  learned :: string
  learningDone :: bool
  learningHours :: "rat option"
  workout :: bool
  workoutType :: "string option"
  screenTime :: "rat option"
  mood :: "nat option"
  mits :: "string list"
  mitsDone :: "bool list"
  tasks :: "(string \<times> bool) list"
  archived :: bool
  finalized :: bool
  finalizedAt :: "string option"
  finalState :: "day_state option"
  lastInteraction :: "string option"

text \<open>\<^verbatim>\<open>dashboardData.settings\<close> (the fields the rules read).\<close>

record dash_settings =
  wakeupTarget :: string
  screenTimeGoal :: "rat option"

text \<open>
  One entry of \<^verbatim>\<open>nonNegotiables\<close> in the SettingsAuthority tree. The flags
  are \<open>Some b\<close> when the stored value is the boolean \<open>b\<close> and \<open>None\<close> otherwise: the code
  only ever tests them with \<^verbatim>\<open>=== false\<close> or \<^verbatim>\<open>!== false\<close>.
\<close>

record habit_settings =
  enabled :: "bool option"
  hs_countsTowardCompletion :: "bool option"
  minHoursDaily :: "rat option"
  hs_wakeupTarget :: "string option"
  wakeupTolerance :: "rat option"
  dailyLimit :: "rat option"

record sa_settings =
  nonNegotiables :: "string \<Rightarrow> habit_settings option"
  sensitivity :: "string option"

text \<open>
  \<^verbatim>\<open>new Date(`2000-01-01T${s}`)\<close> is a platform function; the rules only subtract
  two such dates. It is a parameter of the model: \<open>dp s\<close> is the time value in
  milliseconds, \<open>None\<close> for an invalid date (whose arithmetic gives \<^verbatim>\<open>NaN\<close>, and
  every comparison with \<^verbatim>\<open>NaN\<close> is false).
\<close>

type_synonym date_parser = "string \<Rightarrow> int option"

text \<open>One instance, for 24-hour \<^verbatim>\<open>HH:MM\<close> strings as a time input produces them.\<close>

definition digit_val :: "char \<Rightarrow> nat option" where
  "digit_val c =
     (let n = of_char c :: nat in if 48 \<le> n \<and> n \<le> 57 then Some (n - 48) else None)"

definition parseClock :: date_parser where
  "parseClock s =
     (case s of
        [a, b, c, d, e] \<Rightarrow>
          (if c \<noteq> CHR '':'' then None
           else (case (digit_val a, digit_val b, digit_val d, digit_val e) of
                   (Some h1, Some h0, Some m1, Some m0) \<Rightarrow>
                     (let h = 10 * h1 + h0; m = 10 * m1 + m0
                      in if h < 24 \<and> m < 60 then Some (int (h * 60 + m) * 60000) else None)
                 | _ \<Rightarrow> None))
      | _ \<Rightarrow> None)"

text \<open>\<^verbatim>\<open>v || d\<close> on a number and on a string.\<close>

definition num_or :: "rat option \<Rightarrow> rat \<Rightarrow> rat" where
  "num_or v d = (case v of None \<Rightarrow> d | Some x \<Rightarrow> if x = 0 then d else x)"

definition str_or :: "string option \<Rightarrow> string \<Rightarrow> string" where
  "str_or v d = (case v of None \<Rightarrow> d | Some s \<Rightarrow> if s = [] then d else s)"

text \<open>
  \<^verbatim>\<open>settings?.nonNegotiables?.[id]\<close>; the settings object itself may be
  \<^verbatim>\<open>null\<close> (no SettingsAuthority loaded, or nothing loaded into it).
\<close>

definition sa_habit :: "sa_settings option \<Rightarrow> string \<Rightarrow> habit_settings option" where
  "sa_habit sa h = (case sa of None \<Rightarrow> None | Some s \<Rightarrow> nonNegotiables s h)"

definition sa_enabled :: "sa_settings option \<Rightarrow> string \<Rightarrow> bool option" where
  "sa_enabled sa h = (case sa_habit sa h of None \<Rightarrow> None | Some hs \<Rightarrow> enabled hs)"

definition sa_sensitivity :: "sa_settings option \<Rightarrow> string option" where
  "sa_sensitivity sa = (case sa of None \<Rightarrow> None | Some s \<Rightarrow> sensitivity s)"

section \<open>script.js: habit validation and day state\<close>

definition wasWakeupOnTime :: "dash_settings \<Rightarrow> date_parser \<Rightarrow> day_log option \<Rightarrow> bool" where
  "wasWakeupOnTime ds dp lg =
     (case lg of
        None \<Rightarrow> False
      | Some l \<Rightarrow>
          (case wakeUp l of
             None \<Rightarrow> False
           | Some w \<Rightarrow>
               if w = [] then False
               else (case (dp w, dp (wakeupTarget ds)) of
                       (Some wakeupDate, Some targetDate) \<Rightarrow>
                         (of_int (wakeupDate - targetDate) :: rat) / 60000 \<le> 30
                     | _ \<Rightarrow> False)))"

definition isHabitValidated ::
  "dash_settings \<Rightarrow> date_parser \<Rightarrow> string \<Rightarrow> day_log option \<Rightarrow> bool" where
  "isHabitValidated ds dp habitId lg =
     (case lg of
        None \<Rightarrow> False
      | Some l \<Rightarrow>
          if habitId = ''learning'' then learningDone l \<and> num_or (learningHours l) 0 > 0
          else if habitId = ''gym'' then workout l
          else if habitId = ''sleep'' then wasWakeupOnTime ds dp lg
          else if habitId = ''screenTime'' then
            (let goal = num_or (screenTimeGoal ds) 3 in num_or (screenTime l) 0 \<le> goal)
          else True)"

definition getEnabledRequiredHabits :: "sa_settings option \<Rightarrow> string list" where
  "getEnabledRequiredHabits sa =
     (let habits = [];
          habits = (if sa_enabled sa ''learning'' \<noteq> Some False
                    then habits @ [''learning''] else habits);
          habits = (if sa_enabled sa ''gym'' \<noteq> Some False
                    then habits @ [''gym''] else habits);
          habits = (if sa_enabled sa ''sleep'' \<noteq> Some False
                    then habits @ [''sleep''] else habits);
          habits = (if sa_enabled sa ''screenTime'' \<noteq> Some False
                    then habits @ [''screenTime''] else habits)
      in habits)"

text \<open>The \<^verbatim>\<open>for ... of\<close> loop of \<^verbatim>\<open>calculateDayState\<close>, which leaves at the first failing habit.\<close>

fun allMet_loop :: "(string \<Rightarrow> bool) \<Rightarrow> string list \<Rightarrow> bool" where
  "allMet_loop ok [] = True"
| "allMet_loop ok (habit # rest) = (if \<not> ok habit then False else allMet_loop ok rest)"

definition calculateDayState ::
  "sa_settings option \<Rightarrow> dash_settings \<Rightarrow> date_parser \<Rightarrow> day_log option \<Rightarrow> day_state" where
  "calculateDayState sa ds dp lg =
     (case lg of
        None \<Rightarrow> NOT_COUNTED
      | Some l \<Rightarrow>
          if \<not> finalized l then NOT_COUNTED
          else (let enabledHabits = getEnabledRequiredHabits sa
                in if length enabledHabits = 0 then COMPLETED
                   else if allMet_loop (\<lambda>h. isHabitValidated ds dp h lg) enabledHabits
                        then COMPLETED else MISSED))"

definition getHabitDisplayName :: "string \<Rightarrow> string" where
  "getHabitDisplayName habitId =
     (if habitId = ''learning'' then ''Learning''
      else if habitId = ''gym'' then ''Workout''
      else if habitId = ''sleep'' then ''Wake-up''
      else if habitId = ''screenTime'' then ''Screen Time''
      else habitId)"

record preview =
  state :: day_state
  missingHabits :: "string list"
  mitsCompleted :: nat

text \<open>The \<^verbatim>\<open>forEach\<close> of \<^verbatim>\<open>previewFinalState\<close>: it visits every habit and collects the failing ones.\<close>

fun preview_loop ::
  "(string \<Rightarrow> bool) \<Rightarrow> string list \<Rightarrow> bool \<times> string list \<Rightarrow> bool \<times> string list" where
  "preview_loop ok [] acc = acc"
| "preview_loop ok (habitId # rest) (allMet, missing) =
     (if \<not> ok habitId
      then preview_loop ok rest (False, missing @ [getHabitDisplayName habitId])
      else preview_loop ok rest (allMet, missing))"

definition previewFinalState ::
  "sa_settings option \<Rightarrow> dash_settings \<Rightarrow> date_parser \<Rightarrow> day_log option \<Rightarrow> preview" where
  "previewFinalState sa ds dp lg =
     (case lg of
        None \<Rightarrow> \<lparr>state = NOT_COUNTED, missingHabits = [], mitsCompleted = 0\<rparr>
      | Some l \<Rightarrow>
          (let enabledHabits = getEnabledRequiredHabits sa;
               (allMet, missing) =
                  preview_loop (\<lambda>h. isHabitValidated ds dp h lg) enabledHabits (True, []);
               done_count = length (filter (\<lambda>b. b) (mitsDone l));
               st = (if length enabledHabits = 0 then COMPLETED
                     else if allMet then COMPLETED else MISSED)
           in \<lparr>state = st, missingHabits = missing, mitsCompleted = done_count\<rparr>))"

section \<open>habitSystem.js: registry and day state machine\<close>

record habit =
  habit_id :: string
  name :: string
  streakEnabled :: bool
  countsTowardCompletion :: bool

definition getAllHabits :: "habit list" where
  "getAllHabits =
     [\<lparr>habit_id = ''learning'', name = ''Learning'', streakEnabled = True,
        countsTowardCompletion = True\<rparr>,
      \<lparr>habit_id = ''gym'', name = ''Workout'', streakEnabled = True,
        countsTowardCompletion = True\<rparr>,
      \<lparr>habit_id = ''sleep'', name = ''Sleep'', streakEnabled = True,
        countsTowardCompletion = True\<rparr>,
      \<lparr>habit_id = ''screenTime'', name = ''Screen Time'', streakEnabled = False,
        countsTowardCompletion = True\<rparr>]"

definition getHabit :: "string \<Rightarrow> habit option" where
  "getHabit i = find (\<lambda>h. habit_id h = i) getAllHabits"

definition getEnabledHabits :: "sa_settings option \<Rightarrow> habit list" where
  "getEnabledHabits settings =
     filter (\<lambda>h. sa_enabled settings (habit_id h) \<noteq> Some False) getAllHabits"

definition getCompletionHabits :: "sa_settings option \<Rightarrow> habit list" where
  "getCompletionHabits settings =
     filter (\<lambda>h. (case sa_habit settings (habit_id h) of
                     None \<Rightarrow> None
                   | Some hs \<Rightarrow> hs_countsTowardCompletion hs) \<noteq> Some False
                 \<and> countsTowardCompletion h)
            (getEnabledHabits settings)"

definition isWakeupOnTime :: "date_parser \<Rightarrow> string \<Rightarrow> string \<Rightarrow> rat \<Rightarrow> bool" where
  "isWakeupOnTime dp wakeupTime targetTime toleranceMinutes =
     (if wakeupTime = [] then False
      else (case (dp wakeupTime, dp targetTime) of
              (Some wakeup, Some target) \<Rightarrow>
                (of_int (wakeup - target) :: rat) / 60000 \<le> toleranceMinutes
            | _ \<Rightarrow> False))"

definition hs_num :: "habit_settings option \<Rightarrow> (habit_settings \<Rightarrow> rat option) \<Rightarrow> rat \<Rightarrow> rat" where
  "hs_num habitSettings field d =
     (case habitSettings of None \<Rightarrow> d | Some hs \<Rightarrow> num_or (field hs) d)"

definition isHabitComplete ::
  "date_parser \<Rightarrow> string \<Rightarrow> day_log option \<Rightarrow> sa_settings option \<Rightarrow> bool" where
  "isHabitComplete dp habitId dayLog settings =
     (case dayLog of
        None \<Rightarrow> False
      | Some l \<Rightarrow>
          (let habitSettings = sa_habit settings habitId
           in if habitId = ''learning'' then
                (if \<not> learningDone l then False
                 else (let minHours = hs_num habitSettings minHoursDaily 0
                       in num_or (learningHours l) 0 \<ge> minHours))
              else if habitId = ''gym'' then workout l
              else if habitId = ''sleep'' then
                (case wakeUp l of
                   None \<Rightarrow> False
                 | Some w \<Rightarrow>
                     if w = [] then False
                     else (let target = str_or (case habitSettings of
                                                  None \<Rightarrow> None
                                                | Some hs \<Rightarrow> hs_wakeupTarget hs) ''05:45'';
                               tolerance = hs_num habitSettings wakeupTolerance 30
                           in isWakeupOnTime dp w target tolerance))
              else if habitId = ''screenTime'' then
                (let limit = hs_num habitSettings dailyLimit 3
                 in num_or (screenTime l) 0 \<le> limit)
              else False))"

text \<open>The \<^verbatim>\<open>forEach\<close> of \<^verbatim>\<open>DayStateMachine.calculateState\<close>: every habit is visited, the flag only ever drops.\<close>

fun allMet_each :: "(habit \<Rightarrow> bool) \<Rightarrow> habit list \<Rightarrow> bool \<Rightarrow> bool" where
  "allMet_each ok [] allMet = allMet"
| "allMet_each ok (h # rest) allMet =
     (if \<not> ok h then allMet_each ok rest False else allMet_each ok rest allMet)"

definition calculateState ::
  "date_parser \<Rightarrow> day_log option \<Rightarrow> sa_settings option \<Rightarrow> day_state" where
  "calculateState dp dayLog settings =
     (case dayLog of
        None \<Rightarrow> NOT_COUNTED
      | Some l \<Rightarrow>
          if \<not> finalized l then NOT_COUNTED
          else (let enabledHabits = getCompletionHabits settings
                in if length enabledHabits = 0 then COMPLETED
                   else if allMet_each (\<lambda>h. isHabitComplete dp (habit_id h) dayLog settings)
                             enabledHabits True
                        then COMPLETED else MISSED))"

section \<open>habitSystem.js: streak authority\<close>

text \<open>
  The streak object that \<^verbatim>\<open>HabitStreakAuthority\<close> receives and returns. On a number
  \<^verbatim>\<open>x || 0\<close> is \<open>x\<close>. \<open>now\<close> stands for \<^verbatim>\<open>new Date().toISOString()\<close>.
\<close>

record streak_data =
  current :: int
  sd_best :: int
  sd_recoveryDays :: int
  sd_lastBroken :: "string option"
  sd_lastUpdated :: "string option"

definition breakHabitStreak :: "string \<Rightarrow> string \<Rightarrow> streak_data \<Rightarrow> streak_data" where
  "breakHabitStreak now habitId streakData =
     (let currentStreak = current streakData
      in if currentStreak = 0 then streakData
         else streakData\<lparr>current := 0,
                         sd_best := max currentStreak (sd_best streakData),
                         sd_lastBroken := Some now,
                         sd_recoveryDays := min \<lceil>(of_int currentStreak :: rat) / 3\<rceil> 5\<rparr>)"

text \<open>The fifth parameter \<^verbatim>\<open>dayState\<close> of the source is never read.\<close>

definition updateHabitStreak ::
  "date_parser \<Rightarrow> string \<Rightarrow> string \<Rightarrow> day_log \<Rightarrow> streak_data \<Rightarrow> sa_settings option
     \<Rightarrow> streak_data" where
  "updateHabitStreak dp now habitId dayLog streakData settings =
     (case getHabit habitId of
        None \<Rightarrow> streakData
      | Some habit \<Rightarrow>
          if \<not> streakEnabled habit then streakData
          else if sa_enabled settings habitId = Some False then streakData
          else if \<not> finalized dayLog then streakData
          else
            (let isComplete = isHabitComplete dp habitId (Some dayLog) settings;
                 currentStreak = current streakData;
                 recovery = sd_recoveryDays streakData
             in if recovery > 0 then
                  (if isComplete then
                     (let newRecovery = recovery - 1
                      in streakData\<lparr>sd_recoveryDays := newRecovery,
                                      current := (if newRecovery = 0 then 1 else currentStreak),
                                      sd_lastUpdated := Some now\<rparr>)
                   else streakData)
                else if isComplete then
                  (let newStreak = currentStreak + 1
                   in streakData\<lparr>current := newStreak,
                                   sd_best := max newStreak (sd_best streakData),
                                   sd_lastUpdated := Some now\<rparr>)
                else breakHabitStreak now habitId streakData))"

section \<open>script.js: streak counters\<close>

text \<open>
  \<^verbatim>\<open>dashboardData.streaks[habitId]\<close> holds the current count and
  \<^verbatim>\<open>dashboardData.streakHistory[habitId]\<close> the rest of a habit's streak state.
\<close>

record streak_history =
  best :: int
  lastBroken :: "string option"
  recoveryDays :: int
  lastUpdated :: "string option"

text \<open>
  The part of \<^verbatim>\<open>dashboardData\<close> that finalizing a day reads and writes.
  \<open>todayLog\<close> is the log object that \<^verbatim>\<open>getTodayLog()\<close> returns, which the
  functions below mutate in place; \<open>lifeScore\<close> is \<^verbatim>\<open>dashboardData.year.lifeScore\<close>.
\<close>

record dashboard =
  todayLog :: day_log
  streaks :: "string \<Rightarrow> int"
  streakHistory :: "string \<Rightarrow> streak_history"
  lifeScore :: int
  lastActiveDate :: "string option"
  settings :: dash_settings

text \<open>The habit whose \<^verbatim>\<open>enabled\<close> flag the key \<^verbatim>\<open>enabledKey\<close> reads.\<close>

definition enabledKey :: "string \<Rightarrow> string" where
  "enabledKey habitId =
     (if habitId = ''gym'' then ''gym''
      else if habitId = ''sleep'' then ''sleep''
      else ''learning'')"

definition checkHabitCompletion ::
  "dash_settings \<Rightarrow> date_parser \<Rightarrow> string \<Rightarrow> day_log option \<Rightarrow> bool" where
  "checkHabitCompletion ds dp habitId lg = isHabitValidated ds dp habitId lg"

text \<open>The body of the \<^verbatim>\<open>forEach\<close> in \<^verbatim>\<open>validateAndUpdateAllStreaks\<close>, for one habit.\<close>

definition updateStreakFor ::
  "sa_settings option \<Rightarrow> date_parser \<Rightarrow> string \<Rightarrow> string \<Rightarrow> dashboard \<Rightarrow> dashboard" where
  "updateStreakFor sa dp today habitId d =
     (if sa_enabled sa (enabledKey habitId) = Some False then d
      else
        (let history = streakHistory d habitId
         in if lastUpdated history = Some today then d
            else
              (let isComplete =
                     checkHabitCompletion (settings d) dp habitId (Some (todayLog d))
               in if recoveryDays history > 0 then
                    (if isComplete then
                       (let history1 = history\<lparr>recoveryDays := recoveryDays history - 1\<rparr>;
                            streaks1 = (if recoveryDays history1 = 0
                                        then (streaks d)(habitId := 1) else streaks d)
                        in d\<lparr>streaks := streaks1,
                             streakHistory :=
                               (streakHistory d)(habitId := history1\<lparr>lastUpdated := Some today\<rparr>)\<rparr>)
                     else d\<lparr>streakHistory :=
                              (streakHistory d)(habitId := history\<lparr>lastUpdated := Some today\<rparr>)\<rparr>)
                  else if isComplete then
                    (let n = streaks d habitId + 1;
                         history1 = (if n > best history then history\<lparr>best := n\<rparr> else history)
                     in d\<lparr>streaks := (streaks d)(habitId := n),
                          streakHistory :=
                            (streakHistory d)(habitId := history1\<lparr>lastUpdated := Some today\<rparr>)\<rparr>)
                  else d\<lparr>streakHistory :=
                           (streakHistory d)(habitId := history\<lparr>lastUpdated := Some today\<rparr>)\<rparr>)))"

definition validateAndUpdateAllStreaks ::
  "sa_settings option \<Rightarrow> date_parser \<Rightarrow> string \<Rightarrow> dashboard \<Rightarrow> dashboard" where
  "validateAndUpdateAllStreaks sa dp today d =
     fold (updateStreakFor sa dp today) [''learning'', ''gym'', ''sleep''] d"

text \<open>The body of the \<^verbatim>\<open>forEach\<close> in \<^verbatim>\<open>applyMissedDayPenalty\<close>, for one habit.\<close>

definition missedPenaltyFor ::
  "sa_settings option \<Rightarrow> date_parser \<Rightarrow> string \<Rightarrow> string \<Rightarrow> dashboard \<Rightarrow> dashboard" where
  "missedPenaltyFor sa dp today habitId d =
     (let sens = str_or (sa_sensitivity sa) ''normal''
      in if sa_enabled sa (enabledKey habitId) = Some False then d
         else
           (let isComplete = isHabitValidated (settings d) dp habitId (Some (todayLog d))
            in if \<not> isComplete then
                 (let history = streakHistory d habitId
                  in if lastUpdated history = Some today then d
                     else
                       (let (streaks1, history1) =
                              (if sens = ''strict'' then
                                 (let h1 = (if streaks d habitId > 0
                                            then history\<lparr>best := max (best history) (streaks d habitId)\<rparr>
                                            else history)
                                  in ((streaks d)(habitId := 0),
                                      h1\<lparr>lastBroken := Some today, recoveryDays := 5\<rparr>))
                               else if sens = ''moderate'' then
                                 ((streaks d)(habitId := streaks d habitId div 2), history)
                               else (streaks d, history))
                        in d\<lparr>streaks := streaks1,
                             streakHistory :=
                               (streakHistory d)(habitId := history1\<lparr>lastUpdated := Some today\<rparr>)\<rparr>))
               else d))"

definition applyMissedDayPenalty ::
  "sa_settings option \<Rightarrow> date_parser \<Rightarrow> string \<Rightarrow> dashboard \<Rightarrow> dashboard" where
  "applyMissedDayPenalty sa dp today d =
     fold (missedPenaltyFor sa dp today) [''learning'', ''gym'', ''sleep''] d"

section \<open>script.js: creating and finalizing today's log\<close>

text \<open>
  \<^verbatim>\<open>createTodayLog\<close> returns the existing log of the date if there is one and a
  fresh one otherwise. Only the returned object is modelled; the source also appends it
  to \<^verbatim>\<open>dailyLogs\<close>, sorts them and saves.
\<close>

definition createTodayLog :: "dash_settings \<Rightarrow> day_log list \<Rightarrow> string \<Rightarrow> day_log" where
  "createTodayLog ds dailyLogs todayStr =
     (case find (\<lambda>l. date l = todayStr) dailyLogs of
        Some existing \<Rightarrow> existing
      | None \<Rightarrow>
          \<lparr>date = todayStr, wakeUp = Some (wakeupTarget ds), sleptOnTime = None,
           learned = [], learningDone = False, learningHours = Some 0, workout = False,
           workoutType = Some ''gym'', screenTime = Some 0, mood = None,
           mits = [[], [], []], mitsDone = [False, False, False], tasks = [],
           archived = False, finalized = False, finalizedAt = None, finalState = None,
           lastInteraction = None\<rparr>)"

text \<open>
  \<^verbatim>\<open>saveNow\<close>. The state is the in-memory \<^verbatim>\<open>dashboardData\<close> and the copy
  last written to \<^verbatim>\<open>localStorage\<close>. The two writes that can throw inside the
  \<^verbatim>\<open>try\<close> block are \<^verbatim>\<open>localStorage.setItem\<close> and, when a backend is in
  use, \<^verbatim>\<open>saveToBackendSync\<close>; which of them throws is the parameter \<open>outcome\<close>.
  \<^verbatim>\<open>calculateLifeScore\<close> is the parameter \<open>score\<close>: its result is only stored.
  The button and the notifications are not modelled (the save button is taken to exist).
\<close>

datatype persist_outcome = PersistOk | LocalStorageThrows | BackendThrows

datatype save_result = AlreadyFinalized | Finalized day_state | SaveFailed

record app =
  mem :: dashboard
  localStorage :: "dashboard option"

definition revertFinalized :: "dashboard \<Rightarrow> dashboard" where
  "revertFinalized d = d\<lparr>todayLog := (todayLog d)\<lparr>finalized := False\<rparr>\<rparr>"

definition saveNow ::
  "sa_settings option \<Rightarrow> date_parser \<Rightarrow> (dashboard \<Rightarrow> int) \<Rightarrow> string \<Rightarrow> string \<Rightarrow> bool
     \<Rightarrow> persist_outcome \<Rightarrow> app \<Rightarrow> save_result \<times> app" where
  "saveNow sa dp score today now useBackend outcome a =
     (let d = mem a
      in if finalized (todayLog d) then (AlreadyFinalized, a)
         else
           (let lg1 = (todayLog d)\<lparr>finalized := True, finalizedAt := Some now,
                                     lastInteraction := Some now\<rparr>;
                dayState = calculateDayState sa (settings d) dp (Some lg1);
                d1 = d\<lparr>todayLog := lg1\<lparr>finalState := Some dayState\<rparr>\<rparr>;
                d2 = (if dayState = COMPLETED then validateAndUpdateAllStreaks sa dp today d1
                      else if dayState = MISSED then applyMissedDayPenalty sa dp today d1
                      else d1);
                d3 = d2\<lparr>lifeScore := score d2, lastActiveDate := Some today\<rparr>
            in if outcome = LocalStorageThrows
               then (SaveFailed, a\<lparr>mem := revertFinalized d3\<rparr>)
               else if useBackend \<and> outcome = BackendThrows
               then (SaveFailed, \<lparr>mem = revertFinalized d3, localStorage = Some d3\<rparr>)
               else (Finalized dayState, \<lparr>mem = d3, localStorage = Some d3\<rparr>)))"

section \<open>Example data\<close>

definition default_dash_settings :: dash_settings where
  "default_dash_settings = \<lparr>wakeupTarget = ''05:45'', screenTimeGoal = Some 3\<rparr>"

text \<open>A filled-in log: two hours of learning, a workout, up at 05:50, one hour of screen time.\<close>

definition full_log :: day_log where
  "full_log =
     \<lparr>date = ''2024-03-01'', wakeUp = Some ''05:50'', sleptOnTime = None,
      learned = ''Isabelle'', learningDone = True, learningHours = Some 2, workout = True,
      workoutType = Some ''gym'', screenTime = Some 1, mood = Some 4,
      mits = [''a'', ''b'', []], mitsDone = [True, False, False], tasks = [],
      archived = False, finalized = False, finalizedAt = None, finalState = None,
      lastInteraction = None\<rparr>"

text \<open>The streak state of the schema, with a gym streak of four days.\<close>

definition fresh_history :: streak_history where
  "fresh_history = \<lparr>best = 0, lastBroken = None, recoveryDays = 0, lastUpdated = None\<rparr>"

definition example_dashboard :: dashboard where
  "example_dashboard =
     \<lparr>todayLog = full_log, streaks = (\<lambda>_. 0)(''gym'' := 4),
      streakHistory = (\<lambda>_. fresh_history), lifeScore = 0, lastActiveDate = None,
      settings = default_dash_settings\<rparr>"

text \<open>SettingsAuthority with nothing configured under \<^verbatim>\<open>nonNegotiables\<close>, in strict mode.\<close>

definition strict_settings :: "sa_settings option" where
  "strict_settings = Some \<lparr>nonNegotiables = (\<lambda>_. None), sensitivity = Some ''strict''\<rparr>"

text \<open>The defaults of SettingsAuthority that the rules read.\<close>

definition default_sa :: "sa_settings option" where
  "default_sa =
     Some \<lparr>nonNegotiables =
             (\<lambda>_. None)
               (''learning'' := Some \<lparr>enabled = Some True, hs_countsTowardCompletion = None,
                   minHoursDaily = Some 2, hs_wakeupTarget = None, wakeupTolerance = None,
                   dailyLimit = None\<rparr>,
                ''gym'' := Some \<lparr>enabled = Some True, hs_countsTowardCompletion = None,
                   minHoursDaily = None, hs_wakeupTarget = None, wakeupTolerance = None,
                   dailyLimit = None\<rparr>,
                ''sleep'' := Some \<lparr>enabled = Some True, hs_countsTowardCompletion = None,
                   minHoursDaily = None, hs_wakeupTarget = Some ''05:45'',
                   wakeupTolerance = Some 30, dailyLimit = None\<rparr>,
                ''screenTime'' := Some \<lparr>enabled = Some True, hs_countsTowardCompletion = None,
                   minHoursDaily = None, hs_wakeupTarget = None, wakeupTolerance = None,
                   dailyLimit = Some 3\<rparr>),
           sensitivity = Some ''normal''\<rparr>"

text \<open>The same with the workout habit switched off.\<close>

definition gym_off_settings :: "sa_settings option" where
  "gym_off_settings =
     Some \<lparr>nonNegotiables =
             (\<lambda>_. None)
               (''gym'' := Some \<lparr>enabled = Some False, hs_countsTowardCompletion = None,
                   minHoursDaily = None, hs_wakeupTarget = None, wakeupTolerance = None,
                   dailyLimit = None\<rparr>),
           sensitivity = Some ''normal''\<rparr>"

definition done_log :: day_log where
  "done_log = full_log\<lparr>finalized := True\<rparr>"

definition no_workout_log :: day_log where
  "no_workout_log = full_log\<lparr>workout := False, finalized := True\<rparr>"

definition one_hour_log :: day_log where
  "one_hour_log = full_log\<lparr>learningHours := Some 1\<rparr>"

definition empty_streak :: streak_data where
  "empty_streak =
     \<lparr>current = 0, sd_best = 0, sd_recoveryDays = 0, sd_lastBroken = None,
      sd_lastUpdated = None\<rparr>"

definition seven_streak :: streak_data where
  "seven_streak =
     \<lparr>current = 7, sd_best = 3, sd_recoveryDays = 0, sd_lastBroken = None,
      sd_lastUpdated = None\<rparr>"

text \<open>Today's log lacks the workout and is not finalized yet; the gym streak stands at four.\<close>

definition missed_dashboard :: dashboard where
  "missed_dashboard = example_dashboard\<lparr>todayLog := full_log\<lparr>workout := False\<rparr>\<rparr>"

definition failing_app :: app where
  "failing_app = \<lparr>mem = missed_dashboard, localStorage = None\<rparr>"

section \<open>Auxiliary predicates\<close>

text \<open>
  A habit is settled for \<open>today\<close> when \<^verbatim>\<open>validateAndUpdateAllStreaks\<close> will skip it:
  it is disabled, or its \<^verbatim>\<open>lastUpdated\<close> is already today.
  \<^verbatim>\<open>applyMissedDayPenalty\<close> also skips a habit that is validated.
\<close>

definition settled :: "sa_settings option \<Rightarrow> string \<Rightarrow> string \<Rightarrow> dashboard \<Rightarrow> bool" where
  "settled sa today h d =
     (sa_enabled sa (enabledKey h) = Some False \<or> lastUpdated (streakHistory d h) = Some today)"

definition penalty_settled ::
  "sa_settings option \<Rightarrow> date_parser \<Rightarrow> string \<Rightarrow> string \<Rightarrow> dashboard \<Rightarrow> bool" where
  "penalty_settled sa dp today h d =
     (settled sa today h d \<or> isHabitValidated (settings d) dp h (Some (todayLog d)))"

section \<open>Day state\<close>

lemma allMet_loop_list_all: "allMet_loop ok hs = list_all ok hs"
  by (induction hs) simp_all

lemma allMet_each_list_all: "allMet_each ok hs b = (b \<and> list_all ok hs)"
  by (induction hs arbitrary: b) auto

lemma preview_loop_fst: "fst (preview_loop ok hs (b, m)) = (b \<and> list_all ok hs)"
  by (induction hs arbitrary: b m) auto

lemma preview_loop_snd:
  "set (snd (preview_loop ok hs (b, m))) =
     set m \<union> getHabitDisplayName ` {h \<in> set hs. \<not> ok h}"
  by (induction hs arbitrary: b m) auto

lemma isHabitValidated_finalize_irrelevant:
  "isHabitValidated ds dp h
      (Some (l\<lparr>finalized := f, finalizedAt := t, lastInteraction := t'\<rparr>)) =
   isHabitValidated ds dp h (Some l)"
  by (simp add: isHabitValidated_def wasWakeupOnTime_def)

text \<open>
  Claim C1. A log whose \<^verbatim>\<open>finalized\<close> flag is false is classified
  \<open>NOT_COUNTED\<close> whatever its other fields hold, by \<^verbatim>\<open>calculateDayState\<close>
  (script.js) and by \<^verbatim>\<open>DayStateMachine.calculateState\<close> (habitSystem.js) alike;
  so is a missing log.
\<close>

theorem unfinalized_day_not_counted:
  assumes "\<not> finalized l"
  shows "calculateDayState sa ds dp (Some l) = NOT_COUNTED
       \<and> calculateState dp (Some l) st = NOT_COUNTED
       \<and> calculateDayState sa ds dp None = NOT_COUNTED
       \<and> calculateState dp None st = NOT_COUNTED"
  using assms by (simp add: calculateDayState_def calculateState_def)

theorem unfinalized_day_not_counted_witness:
  "\<not> finalized full_log
   \<and> calculateDayState default_sa default_dash_settings parseClock (Some full_log) = NOT_COUNTED
   \<and> calculateState parseClock (Some full_log) default_sa = NOT_COUNTED"
proof -
  have nf: "\<not> finalized full_log" by (simp add: full_log_def)
  from unfinalized_day_not_counted [OF nf, where sa = default_sa
      and ds = default_dash_settings and dp = parseClock and st = default_sa]
  show ?thesis using nf by simp
qed

text \<open>
  Claim C2. For a finalized log the state is \<open>COMPLETED\<close> when no habit is enabled and
  required; otherwise it is \<open>COMPLETED\<close> exactly when every enabled required habit is
  satisfied, and \<open>MISSED\<close> if one is not. Both implementations: the loop that leaves at
  the first failure (script.js) and the one that visits every habit (habitSystem.js).
\<close>

theorem finalized_day_completed_iff_all_met:
  assumes "finalized l"
  shows "calculateDayState sa ds dp (Some l) =
           (if getEnabledRequiredHabits sa = [] then COMPLETED
            else if (\<forall>h \<in> set (getEnabledRequiredHabits sa). isHabitValidated ds dp h (Some l))
                 then COMPLETED else MISSED)
       \<and> calculateState dp (Some l) st =
           (if getCompletionHabits st = [] then COMPLETED
            else if (\<forall>h \<in> set (getCompletionHabits st).
                        isHabitComplete dp (habit_id h) (Some l) st)
                 then COMPLETED else MISSED)"
  using assms
  by (simp add: calculateDayState_def calculateState_def allMet_loop_list_all
        allMet_each_list_all list_all_iff Let_def)

theorem finalized_day_completed_iff_all_met_witness:
  "finalized no_workout_log
   \<and> getEnabledRequiredHabits default_sa \<noteq> []
   \<and> \<not> (\<forall>h \<in> set (getEnabledRequiredHabits default_sa).
            isHabitValidated default_dash_settings parseClock h (Some no_workout_log))
   \<and> calculateDayState default_sa default_dash_settings parseClock (Some no_workout_log) = MISSED
   \<and> calculateState parseClock (Some no_workout_log) default_sa = MISSED"
proof -
  have f: "finalized no_workout_log" by (simp add: no_workout_log_def)
  have ne: "getEnabledRequiredHabits default_sa \<noteq> []" by code_simp
  have gym: "''gym'' \<in> set (getEnabledRequiredHabits default_sa)" by code_simp
  have bad: "\<not> isHabitValidated default_dash_settings parseClock ''gym'' (Some no_workout_log)"
    by code_simp
  have hs: "calculateState parseClock (Some no_workout_log) default_sa = MISSED" by code_simp
  have nall: "\<not> (\<forall>h \<in> set (getEnabledRequiredHabits default_sa).
            isHabitValidated default_dash_settings parseClock h (Some no_workout_log))"
    using gym bad by blast
  from finalized_day_completed_iff_all_met [OF f, where sa = default_sa
      and ds = default_dash_settings and dp = parseClock and st = default_sa]
  show ?thesis using f ne nall hs by simp
qed

text \<open>
  Claim C5, as the code has it. \<^verbatim>\<open>DayStateMachine.isHabitComplete\<close> accepts the
  learning habit exactly when the toggle is on and the hours reach the configured
  \<^verbatim>\<open>minHoursDaily\<close> (taken as 0 when absent or 0). \<^verbatim>\<open>isHabitValidated\<close>
  of script.js, which the finalize path uses, reads no configured minimum: it accepts
  exactly when the toggle is on and the hours are positive.
\<close>

theorem learning_rule:
  "isHabitComplete dp ''learning'' (Some l) st =
     (learningDone l
      \<and> num_or (learningHours l) 0 \<ge> hs_num (sa_habit st ''learning'') minHoursDaily 0)
   \<and> isHabitValidated ds dp ''learning'' (Some l) =
     (learningDone l \<and> num_or (learningHours l) 0 > 0)"
  by (simp add: isHabitComplete_def isHabitValidated_def Let_def)

text \<open>
  Claim C5 as stated fails on script.js: with the toggle on and one hour logged against a
  configured minimum of two, \<^verbatim>\<open>isHabitValidated\<close> accepts the learning habit.
\<close>

theorem isHabitValidated_ignores_minimum_hours:
  "isHabitValidated default_dash_settings parseClock ''learning'' (Some one_hour_log)
   \<and> hs_num (sa_habit default_sa ''learning'') minHoursDaily 0 = 2
   \<and> \<not> (learningDone one_hour_log
         \<and> num_or (learningHours one_hour_log) 0
              \<ge> hs_num (sa_habit default_sa ''learning'') minHoursDaily 0)"
  by code_simp

text \<open>
  Claim C6, as the code has it. For a habit id outside the four known ones,
  \<^verbatim>\<open>isHabitValidated\<close> (script.js) holds of every log, and
  \<^verbatim>\<open>DayStateMachine.isHabitComplete\<close> (habitSystem.js) of none.
\<close>

theorem unknown_habit_rule:
  assumes "h \<notin> {''learning'', ''gym'', ''sleep'', ''screenTime''}"
  shows "isHabitValidated ds dp h (Some l) \<and> \<not> isHabitComplete dp h (Some l) st"
  using assms by (simp add: isHabitValidated_def isHabitComplete_def Let_def)

theorem unknown_habit_rule_witness:
  "''meditation'' \<notin> {''learning'', ''gym'', ''sleep'', ''screenTime''}
   \<and> isHabitValidated default_dash_settings parseClock ''meditation'' (Some full_log)
   \<and> \<not> isHabitComplete parseClock ''meditation'' (Some full_log) default_sa"
proof -
  have u: "''meditation'' \<notin> {''learning'', ''gym'', ''sleep'', ''screenTime''}" by simp
  from unknown_habit_rule [OF u, where ds = default_dash_settings and dp = parseClock
      and l = full_log and st = default_sa]
  show ?thesis using u by simp
qed

text \<open>
  Claim C6 as stated fails on habitSystem.js: the \<^verbatim>\<open>default\<close> branch of
  \<^verbatim>\<open>isHabitComplete\<close> returns false.
\<close>

theorem isHabitComplete_unknown_habit_fails:
  "\<not> isHabitComplete parseClock ''meditation'' (Some full_log) default_sa"
  by code_simp

section \<open>Preview and finalize\<close>

lemma updateStreakFor_frame:
  "todayLog (updateStreakFor sa dp today h d) = todayLog d"
  "settings (updateStreakFor sa dp today h d) = settings d"
  by (simp_all add: updateStreakFor_def Let_def)

lemma missedPenaltyFor_frame:
  "todayLog (missedPenaltyFor sa dp today h d) = todayLog d"
  "settings (missedPenaltyFor sa dp today h d) = settings d"
  by (simp_all add: missedPenaltyFor_def Let_def split: prod.splits)

lemma validate_frame:
  "todayLog (validateAndUpdateAllStreaks sa dp today d) = todayLog d"
  "settings (validateAndUpdateAllStreaks sa dp today d) = settings d"
  by (simp_all add: validateAndUpdateAllStreaks_def updateStreakFor_frame)

lemma penalty_frame:
  "todayLog (applyMissedDayPenalty sa dp today d) = todayLog d"
  "settings (applyMissedDayPenalty sa dp today d) = settings d"
  by (simp_all add: applyMissedDayPenalty_def missedPenaltyFor_frame)

lemma preview_state:
  "state (previewFinalState sa ds dp (Some l)) =
     (if getEnabledRequiredHabits sa = [] then COMPLETED
      else if list_all (\<lambda>h. isHabitValidated ds dp h (Some l)) (getEnabledRequiredHabits sa)
           then COMPLETED else MISSED)"
proof -
  obtain b m where pl: "preview_loop (\<lambda>h. isHabitValidated ds dp h (Some l))
                          (getEnabledRequiredHabits sa) (True, []) = (b, m)"
    by (cases "preview_loop (\<lambda>h. isHabitValidated ds dp h (Some l))
                 (getEnabledRequiredHabits sa) (True, [])")
  have "b = list_all (\<lambda>h. isHabitValidated ds dp h (Some l)) (getEnabledRequiredHabits sa)"
    using preview_loop_fst [of "\<lambda>h. isHabitValidated ds dp h (Some l)"
        "getEnabledRequiredHabits sa" True "[]"] pl by simp
  then show ?thesis by (simp add: previewFinalState_def Let_def pl)
qed

lemma preview_is_final:
  "calculateDayState sa ds dp
       (Some (l\<lparr>finalized := True, finalizedAt := Some now, lastInteraction := Some now\<rparr>))
   = state (previewFinalState sa ds dp (Some l))"
  by (simp add: preview_state calculateDayState_def Let_def allMet_loop_list_all
        isHabitValidated_finalize_irrelevant)

lemma saveNow_success:
  assumes "\<not> finalized (todayLog (mem a))"
  shows "fst (saveNow sa dp score today now ub PersistOk a) =
           Finalized (state (previewFinalState sa (settings (mem a)) dp
                               (Some (todayLog (mem a)))))"
    and "finalState (todayLog (mem (snd (saveNow sa dp score today now ub PersistOk a)))) =
           Some (state (previewFinalState sa (settings (mem a)) dp
                          (Some (todayLog (mem a)))))"
  using assms
  by (simp_all add: saveNow_def Let_def preview_is_final validate_frame penalty_frame)

text \<open>
  Claim C7. The state that \<^verbatim>\<open>previewFinalState\<close> shows for a log is the state that
  \<^verbatim>\<open>calculateDayState\<close> computes once \<^verbatim>\<open>saveNow\<close> has set the
  finalization fields of that log; and a successful \<^verbatim>\<open>saveNow\<close> on a log not yet
  finalized reports and stores exactly the previewed state.
\<close>

theorem preview_agrees_with_finalize:
  assumes "\<not> finalized (todayLog (mem a))"
  shows "state (previewFinalState sa ds dp (Some l)) =
           calculateDayState sa ds dp
             (Some (l\<lparr>finalized := True, finalizedAt := Some now,
                      lastInteraction := Some now\<rparr>))
       \<and> fst (saveNow sa dp score today now ub PersistOk a) =
           Finalized (state (previewFinalState sa (settings (mem a)) dp
                               (Some (todayLog (mem a)))))
       \<and> finalState (todayLog (mem (snd (saveNow sa dp score today now ub PersistOk a)))) =
           Some (state (previewFinalState sa (settings (mem a)) dp
                          (Some (todayLog (mem a)))))"
  using saveNow_success [OF assms] by (simp add: preview_is_final)

theorem preview_agrees_with_finalize_witness:
  "\<not> finalized (todayLog (mem failing_app))
   \<and> state (previewFinalState strict_settings default_dash_settings parseClock
        (Some (todayLog (mem failing_app)))) = MISSED
   \<and> fst (saveNow strict_settings parseClock (\<lambda>_. 50) ''2024-03-01'' ''t1'' False PersistOk
        failing_app) = Finalized MISSED"
proof -
  have nf: "\<not> finalized (todayLog (mem failing_app))" by code_simp
  have st: "settings (mem failing_app) = default_dash_settings" by code_simp
  have pv: "state (previewFinalState strict_settings default_dash_settings parseClock
        (Some (todayLog (mem failing_app)))) = MISSED" by code_simp
  from preview_agrees_with_finalize [OF nf, where sa = strict_settings
      and ds = default_dash_settings and dp = parseClock and l = full_log and now = "''t1''"
      and score = "\<lambda>_. 50" and today = "''2024-03-01''" and ub = False]
  show ?thesis using nf st pv by simp
qed

section \<open>Streaks\<close>

lemma enabledKey_streak_habit:
  "h \<in> {''learning'', ''gym'', ''sleep''} \<Longrightarrow> enabledKey h = h"
  by (auto simp add: enabledKey_def)

lemma getHabit_streak:
  "h \<in> {''learning'', ''gym'', ''sleep''} \<Longrightarrow> \<exists>hb. getHabit h = Some hb \<and> streakEnabled hb"
  by (auto simp add: getHabit_def getAllHabits_def)

lemma updateStreakFor_other:
  "k \<noteq> h \<Longrightarrow> streaks (updateStreakFor sa dp today h d) k = streaks d k"
  "k \<noteq> h \<Longrightarrow> streakHistory (updateStreakFor sa dp today h d) k = streakHistory d k"
  by (simp_all add: updateStreakFor_def Let_def)

lemma updateStreakFor_skip:
  "settled sa today h d \<Longrightarrow> updateStreakFor sa dp today h d = d"
  by (auto simp add: settled_def updateStreakFor_def Let_def)

lemma updateStreakFor_settles: "settled sa today h (updateStreakFor sa dp today h d)"
  by (simp add: settled_def updateStreakFor_def Let_def)

lemma updateStreakFor_keeps_settled:
  assumes "settled sa today k d"
  shows "settled sa today k (updateStreakFor sa dp today h d)"
proof (cases "k = h")
  case True
  with assms show ?thesis by (simp add: updateStreakFor_skip)
next
  case False
  with assms show ?thesis by (simp add: settled_def updateStreakFor_other)
qed

lemma updateStreakFor_idem:
  "updateStreakFor sa dp today h (updateStreakFor sa dp today h d) =
   updateStreakFor sa dp today h d"
  by (simp add: updateStreakFor_skip updateStreakFor_settles)

lemma validate_settled:
  "h \<in> {''learning'', ''gym'', ''sleep''} \<Longrightarrow>
     settled sa today h (validateAndUpdateAllStreaks sa dp today d)"
  by (auto simp add: validateAndUpdateAllStreaks_def updateStreakFor_settles
        updateStreakFor_keeps_settled)

lemma validate_fixed:
  assumes "\<And>h. h \<in> {''learning'', ''gym'', ''sleep''} \<Longrightarrow> settled sa today h d"
  shows "validateAndUpdateAllStreaks sa dp today d = d"
proof -
  have "updateStreakFor sa dp today ''learning'' d = d"
       "updateStreakFor sa dp today ''gym'' d = d"
       "updateStreakFor sa dp today ''sleep'' d = d"
    using assms by (simp_all add: updateStreakFor_skip)
  then show ?thesis by (simp add: validateAndUpdateAllStreaks_def)
qed

lemma validate_idem:
  "validateAndUpdateAllStreaks sa dp today (validateAndUpdateAllStreaks sa dp today d) =
   validateAndUpdateAllStreaks sa dp today d"
  by (rule validate_fixed) (rule validate_settled)

lemma missedPenaltyFor_other:
  "k \<noteq> h \<Longrightarrow> streaks (missedPenaltyFor sa dp today h d) k = streaks d k"
  "k \<noteq> h \<Longrightarrow> streakHistory (missedPenaltyFor sa dp today h d) k = streakHistory d k"
  by (simp_all add: missedPenaltyFor_def Let_def split: prod.splits)

lemma missedPenaltyFor_skip:
  "penalty_settled sa dp today h d \<Longrightarrow> missedPenaltyFor sa dp today h d = d"
  by (auto simp add: penalty_settled_def settled_def missedPenaltyFor_def Let_def)

lemma missedPenaltyFor_settles:
  "penalty_settled sa dp today h (missedPenaltyFor sa dp today h d)"
  by (simp add: penalty_settled_def settled_def missedPenaltyFor_def Let_def
        split: prod.splits)

lemma missedPenaltyFor_keeps_settled:
  assumes "penalty_settled sa dp today k d"
  shows "penalty_settled sa dp today k (missedPenaltyFor sa dp today h d)"
proof (cases "k = h")
  case True
  with assms show ?thesis by (simp add: missedPenaltyFor_skip)
next
  case False
  with assms show ?thesis
    by (simp add: penalty_settled_def settled_def missedPenaltyFor_other
          missedPenaltyFor_frame)
qed

lemma penalty_settled_all:
  "h \<in> {''learning'', ''gym'', ''sleep''} \<Longrightarrow>
     penalty_settled sa dp today h (applyMissedDayPenalty sa dp today d)"
  by (auto simp add: applyMissedDayPenalty_def missedPenaltyFor_settles
        missedPenaltyFor_keeps_settled)

lemma penalty_fixed:
  assumes "\<And>h. h \<in> {''learning'', ''gym'', ''sleep''} \<Longrightarrow> penalty_settled sa dp today h d"
  shows "applyMissedDayPenalty sa dp today d = d"
proof -
  have "missedPenaltyFor sa dp today ''learning'' d = d"
       "missedPenaltyFor sa dp today ''gym'' d = d"
       "missedPenaltyFor sa dp today ''sleep'' d = d"
    using assms by (simp_all add: missedPenaltyFor_skip)
  then show ?thesis by (simp add: applyMissedDayPenalty_def)
qed

lemma penalty_idem:
  "applyMissedDayPenalty sa dp today (applyMissedDayPenalty sa dp today d) =
   applyMissedDayPenalty sa dp today d"
  by (rule penalty_fixed) (rule penalty_settled_all)

text \<open>
  Claim C3, as the code has it. The streak update that finalizing runs in script.js is
  idempotent per date: \<^verbatim>\<open>validateAndUpdateAllStreaks\<close>, each of its per-habit steps
  and \<^verbatim>\<open>applyMissedDayPenalty\<close> give the same state when run twice for the same
  date as when run once, and a habit whose \<^verbatim>\<open>lastUpdated\<close> already is that date
  is left as it is.
\<close>

theorem script_streak_update_idempotent:
  "validateAndUpdateAllStreaks sa dp today (validateAndUpdateAllStreaks sa dp today d)
     = validateAndUpdateAllStreaks sa dp today d
   \<and> updateStreakFor sa dp today h (updateStreakFor sa dp today h d)
     = updateStreakFor sa dp today h d
   \<and> applyMissedDayPenalty sa dp today (applyMissedDayPenalty sa dp today d)
     = applyMissedDayPenalty sa dp today d
   \<and> (lastUpdated (streakHistory d h) = Some today \<longrightarrow> updateStreakFor sa dp today h d = d)"
  by (simp add: validate_idem updateStreakFor_idem penalty_idem updateStreakFor_skip
        settled_def)

theorem script_streak_update_idempotent_witness:
  "lastUpdated (streakHistory
      (validateAndUpdateAllStreaks default_sa parseClock ''2024-03-01'' example_dashboard)
      ''gym'') = Some ''2024-03-01''
   \<and> streaks (validateAndUpdateAllStreaks default_sa parseClock ''2024-03-01'' example_dashboard)
        ''gym'' = 5
   \<and> updateStreakFor default_sa parseClock ''2024-03-01'' ''gym''
        (validateAndUpdateAllStreaks default_sa parseClock ''2024-03-01'' example_dashboard)
      = validateAndUpdateAllStreaks default_sa parseClock ''2024-03-01'' example_dashboard"
proof -
  have st: "lastUpdated (streakHistory
      (validateAndUpdateAllStreaks default_sa parseClock ''2024-03-01'' example_dashboard)
      ''gym'') = Some ''2024-03-01''" by code_simp
  have five: "streaks
      (validateAndUpdateAllStreaks default_sa parseClock ''2024-03-01'' example_dashboard)
      ''gym'' = 5" by code_simp
  from script_streak_update_idempotent [where sa = default_sa and dp = parseClock
      and today = "''2024-03-01''" and h = "''gym''"
      and d = "validateAndUpdateAllStreaks default_sa parseClock ''2024-03-01'' example_dashboard"]
  show ?thesis using st five by simp
qed

text \<open>
  Claim C3 as stated fails on habitSystem.js:
  \<^verbatim>\<open>HabitStreakAuthority.updateHabitStreak\<close> compares no date, so a second call
  with the same habit and the same finalized log counts the day again.
\<close>

theorem updateHabitStreak_not_idempotent:
  "updateHabitStreak parseClock ''t2'' ''gym'' done_log
      (updateHabitStreak parseClock ''t1'' ''gym'' done_log empty_streak None) None
   \<noteq> updateHabitStreak parseClock ''t1'' ''gym'' done_log empty_streak None
   \<and> current (updateHabitStreak parseClock ''t1'' ''gym'' done_log empty_streak None) = 1
   \<and> current (updateHabitStreak parseClock ''t1'' ''gym'' done_log
        (updateHabitStreak parseClock ''t1'' ''gym'' done_log empty_streak None) None) = 2"
  by code_simp

text \<open>
  Claim C4, as the code has it. \<^verbatim>\<open>HabitStreakAuthority.breakHabitStreak\<close>, which
  \<^verbatim>\<open>updateHabitStreak\<close> reaches for an enabled streak habit on a finalized day
  that does not satisfy it and outside recovery, leaves a zero streak as it is and
  otherwise sets best to the larger of best and current, current to 0, the break date,
  and the recovery to \<open>min \<lceil>current / 3\<rceil> 5\<close> days. In script.js,
  \<^verbatim>\<open>applyMissedDayPenalty\<close> in strict mode breaks a positive streak the same way
  but with a recovery of five days whatever the streak was.
\<close>

theorem streak_break_rule:
  assumes "h \<in> {''learning'', ''gym'', ''sleep''}"
      and "sa_enabled st h \<noteq> Some False"
      and "finalized lg"
      and "\<not> isHabitComplete dp h (Some lg) st"
      and "sd_recoveryDays sd \<le> 0"
      and "sa_enabled sa h \<noteq> Some False"
      and "sa_sensitivity sa = Some ''strict''"
      and "\<not> isHabitValidated (settings d) dp h (Some (todayLog d))"
      and "lastUpdated (streakHistory d h) \<noteq> Some today"
      and "streaks d h > 0"
  shows "breakHabitStreak now h sd =
           (if current sd = 0 then sd
            else sd\<lparr>current := 0, sd_best := max (sd_best sd) (current sd),
                    sd_lastBroken := Some now,
                    sd_recoveryDays := min \<lceil>(of_int (current sd) :: rat) / 3\<rceil> 5\<rparr>)
       \<and> updateHabitStreak dp now h lg sd st = breakHabitStreak now h sd
       \<and> streaks (missedPenaltyFor sa dp today h d) h = 0
       \<and> streakHistory (missedPenaltyFor sa dp today h d) h =
           \<lparr>best = max (best (streakHistory d h)) (streaks d h), lastBroken = Some today,
            recoveryDays = 5, lastUpdated = Some today\<rparr>"
proof (intro conjI)
  show "breakHabitStreak now h sd =
           (if current sd = 0 then sd
            else sd\<lparr>current := 0, sd_best := max (sd_best sd) (current sd),
                    sd_lastBroken := Some now,
                    sd_recoveryDays := min \<lceil>(of_int (current sd) :: rat) / 3\<rceil> 5\<rparr>)"
    by (simp add: breakHabitStreak_def Let_def max.commute)
next
  obtain hb where "getHabit h = Some hb" "streakEnabled hb"
    using getHabit_streak [OF assms(1)] by blast
  with assms(2-5) show "updateHabitStreak dp now h lg sd st = breakHabitStreak now h sd"
    by (simp add: updateHabitStreak_def Let_def)
next
  have ek: "enabledKey h = h" using assms(1) by (rule enabledKey_streak_habit)
  from assms(6-10) ek show "streaks (missedPenaltyFor sa dp today h d) h = 0"
    by (simp add: missedPenaltyFor_def Let_def str_or_def)
  from assms(6-10) ek show "streakHistory (missedPenaltyFor sa dp today h d) h =
           \<lparr>best = max (best (streakHistory d h)) (streaks d h), lastBroken = Some today,
            recoveryDays = 5, lastUpdated = Some today\<rparr>"
    by (simp add: missedPenaltyFor_def Let_def str_or_def)
qed

theorem streak_break_rule_witness:
  "updateHabitStreak parseClock ''t1'' ''gym'' no_workout_log seven_streak default_sa =
     \<lparr>current = 0, sd_best = 7, sd_recoveryDays = 3, sd_lastBroken = Some ''t1'',
      sd_lastUpdated = None\<rparr>
   \<and> streaks (missedPenaltyFor strict_settings parseClock ''2024-03-01'' ''gym'' missed_dashboard)
       ''gym'' = 0
   \<and> streakHistory (missedPenaltyFor strict_settings parseClock ''2024-03-01'' ''gym''
       missed_dashboard) ''gym'' =
       \<lparr>best = 4, lastBroken = Some ''2024-03-01'', recoveryDays = 5,
        lastUpdated = Some ''2024-03-01''\<rparr>"
proof -
  have a1: "''gym'' \<in> {''learning'', ''gym'', ''sleep''}" by simp
  have a2: "sa_enabled default_sa ''gym'' \<noteq> Some False" by code_simp
  have a3: "finalized no_workout_log" by code_simp
  have a4: "\<not> isHabitComplete parseClock ''gym'' (Some no_workout_log) default_sa" by code_simp
  have a5: "sd_recoveryDays seven_streak \<le> 0" by code_simp
  have a6: "sa_enabled strict_settings ''gym'' \<noteq> Some False" by code_simp
  have a7: "sa_sensitivity strict_settings = Some ''strict''" by code_simp
  have a8: "\<not> isHabitValidated (settings missed_dashboard) parseClock ''gym''
               (Some (todayLog missed_dashboard))" by code_simp
  have a9: "lastUpdated (streakHistory missed_dashboard ''gym'') \<noteq> Some ''2024-03-01''"
    by code_simp
  have a10: "streaks missed_dashboard ''gym'' > 0" by code_simp
  have c: "current seven_streak = 7" "sd_best seven_streak = 3"
    by (simp_all add: seven_streak_def)
  have b: "best (streakHistory missed_dashboard ''gym'') = 0" "streaks missed_dashboard ''gym'' = 4"
    by code_simp+
  have r: "\<lceil>(7::rat) / 3\<rceil> = (3::int)" by code_simp
  from streak_break_rule [where h = "''gym''" and st = default_sa and lg = no_workout_log
      and dp = parseClock and sd = seven_streak and sa = strict_settings
      and d = missed_dashboard and today = "''2024-03-01''" and now = "''t1''",
      OF a1 a2 a3 a4 a5 a6 a7 a8 a9 a10]
  show ?thesis using c b r by (simp add: seven_streak_def)
qed

text \<open>
  Claim C4 as stated fails on script.js: in strict mode a missed workout with a gym streak
  of four sets the recovery to five days, where \<open>min \<lceil>4 / 3\<rceil> 5\<close> is two.
\<close>

theorem strict_penalty_recovery_is_five:
  "sa_sensitivity strict_settings = Some ''strict''
   \<and> streaks missed_dashboard ''gym'' = 4
   \<and> \<not> isHabitValidated (settings missed_dashboard) parseClock ''gym''
          (Some (todayLog missed_dashboard))
   \<and> recoveryDays (streakHistory
        (applyMissedDayPenalty strict_settings parseClock ''2024-03-01'' missed_dashboard)
        ''gym'') = 5
   \<and> min \<lceil>(of_int (streaks missed_dashboard ''gym'') :: rat) / 3\<rceil> 5 = (2::int)"
  by code_simp

lemma validate_disabled_key:
  assumes "sa_enabled sa h = Some False"
  shows "streaks (validateAndUpdateAllStreaks sa dp today d) h = streaks d h"
    and "streakHistory (validateAndUpdateAllStreaks sa dp today d) h = streakHistory d h"
proof -
  have step: "streaks (updateStreakFor sa dp today k e) h = streaks e h
      \<and> streakHistory (updateStreakFor sa dp today k e) h = streakHistory e h"
    if k: "k \<in> {''learning'', ''gym'', ''sleep''}" for k e
  proof (cases "h = k")
    case True
    with assms k have "settled sa today k e"
      by (simp add: settled_def enabledKey_streak_habit)
    then show ?thesis by (simp add: updateStreakFor_skip)
  next
    case False
    then show ?thesis by (simp add: updateStreakFor_other)
  qed
  show "streaks (validateAndUpdateAllStreaks sa dp today d) h = streaks d h"
    by (simp add: validateAndUpdateAllStreaks_def step)
  show "streakHistory (validateAndUpdateAllStreaks sa dp today d) h = streakHistory d h"
    by (simp add: validateAndUpdateAllStreaks_def step)
qed

lemma penalty_disabled_key:
  assumes "sa_enabled sa h = Some False"
  shows "streaks (applyMissedDayPenalty sa dp today d) h = streaks d h"
    and "streakHistory (applyMissedDayPenalty sa dp today d) h = streakHistory d h"
proof -
  have step: "streaks (missedPenaltyFor sa dp today k e) h = streaks e h
      \<and> streakHistory (missedPenaltyFor sa dp today k e) h = streakHistory e h"
    if k: "k \<in> {''learning'', ''gym'', ''sleep''}" for k e
  proof (cases "h = k")
    case True
    with assms k have "penalty_settled sa dp today k e"
      by (simp add: penalty_settled_def settled_def enabledKey_streak_habit)
    then show ?thesis by (simp add: missedPenaltyFor_skip)
  next
    case False
    then show ?thesis by (simp add: missedPenaltyFor_other)
  qed
  show "streaks (applyMissedDayPenalty sa dp today d) h = streaks d h"
    by (simp add: applyMissedDayPenalty_def step)
  show "streakHistory (applyMissedDayPenalty sa dp today d) h = streakHistory d h"
    by (simp add: applyMissedDayPenalty_def step)
qed

text \<open>
  Claim C9. A habit whose \<^verbatim>\<open>enabled\<close> flag is false keeps its streak state through
  every streak update, whatever the log holds: \<^verbatim>\<open>updateHabitStreak\<close>
  (habitSystem.js) returns the streak object it was given, and
  \<^verbatim>\<open>validateAndUpdateAllStreaks\<close> and \<^verbatim>\<open>applyMissedDayPenalty\<close>
  (script.js) leave the habit's count and history as they were.
\<close>

theorem disabled_habit_streak_unchanged:
  assumes "sa_enabled sa h = Some False"
  shows "updateHabitStreak dp now h lg sd sa = sd
       \<and> streaks (validateAndUpdateAllStreaks sa dp today d) h = streaks d h
       \<and> streakHistory (validateAndUpdateAllStreaks sa dp today d) h = streakHistory d h
       \<and> streaks (applyMissedDayPenalty sa dp today d) h = streaks d h
       \<and> streakHistory (applyMissedDayPenalty sa dp today d) h = streakHistory d h"
  using assms validate_disabled_key [OF assms] penalty_disabled_key [OF assms]
  by (simp add: updateHabitStreak_def split: option.splits)

theorem disabled_habit_streak_unchanged_witness:
  "sa_enabled gym_off_settings ''gym'' = Some False
   \<and> updateHabitStreak parseClock ''t1'' ''gym'' done_log seven_streak gym_off_settings
       = seven_streak
   \<and> streaks (validateAndUpdateAllStreaks gym_off_settings parseClock ''2024-03-01''
        example_dashboard) ''gym'' = 4
   \<and> streaks (validateAndUpdateAllStreaks gym_off_settings parseClock ''2024-03-01''
        example_dashboard) ''learning'' = 1"
proof -
  have off: "sa_enabled gym_off_settings ''gym'' = Some False" by code_simp
  have four: "streaks example_dashboard ''gym'' = 4" by code_simp
  have one: "streaks (validateAndUpdateAllStreaks gym_off_settings parseClock ''2024-03-01''
        example_dashboard) ''learning'' = 1" by code_simp
  from disabled_habit_streak_unchanged [OF off, where dp = parseClock and now = "''t1''"
      and lg = done_log and sd = seven_streak and today = "''2024-03-01''"
      and d = example_dashboard]
  show ?thesis using off four one by simp
qed

section \<open>A failed finalize\<close>

text \<open>
  Claim C8 on the code. \<^verbatim>\<open>saveNow\<close> is run on a day that lacks the workout, in
  strict mode, with a gym streak of four, and \<^verbatim>\<open>localStorage.setItem\<close> throws.
  The \<^verbatim>\<open>catch\<close> block puts \<^verbatim>\<open>finalized\<close> back to false, and nothing else:
  the log keeps the final state \<open>MISSED\<close> and its finalization time, the gym streak
  stays broken with five recovery days, and the score and the last active date stay
  overwritten.
\<close>

theorem failed_finalize_keeps_streak_break:
  "fst (saveNow strict_settings parseClock score ''2024-03-01'' ''t1'' False LocalStorageThrows
          failing_app) = SaveFailed
   \<and> \<not> finalized (todayLog (mem (snd
        (saveNow strict_settings parseClock score ''2024-03-01'' ''t1'' False LocalStorageThrows
           failing_app))))
   \<and> finalState (todayLog (mem failing_app)) = None
   \<and> finalState (todayLog (mem (snd
        (saveNow strict_settings parseClock score ''2024-03-01'' ''t1'' False LocalStorageThrows
           failing_app)))) = Some MISSED
   \<and> streaks (mem failing_app) ''gym'' = 4
   \<and> streaks (mem (snd
        (saveNow strict_settings parseClock score ''2024-03-01'' ''t1'' False LocalStorageThrows
           failing_app))) ''gym'' = 0
   \<and> recoveryDays (streakHistory (mem failing_app) ''gym'') = 0
   \<and> recoveryDays (streakHistory (mem (snd
        (saveNow strict_settings parseClock score ''2024-03-01'' ''t1'' False LocalStorageThrows
           failing_app))) ''gym'') = 5
   \<and> lastActiveDate (mem failing_app) = None
   \<and> lastActiveDate (mem (snd
        (saveNow strict_settings parseClock score ''2024-03-01'' ''t1'' False LocalStorageThrows
           failing_app))) = Some ''2024-03-01''"
  by (simp add: saveNow_def Let_def failing_app_def missed_dashboard_def example_dashboard_def
       full_log_def strict_settings_def default_dash_settings_def fresh_history_def
       calculateDayState_def getEnabledRequiredHabits_def sa_enabled_def sa_habit_def
       sa_sensitivity_def isHabitValidated_def wasWakeupOnTime_def num_or_def str_or_def
       parseClock_def digit_val_def applyMissedDayPenalty_def missedPenaltyFor_def enabledKey_def
       revertFinalized_def)

section \<open>A fresh log\<close>

text \<open>
  Claim C10. When today has no log yet and the configured wake-up target is a non-empty
  time that parses, the log that \<^verbatim>\<open>createTodayLog\<close> makes carries that target as
  its wake-up time, so \<^verbatim>\<open>wasWakeupOnTime\<close> and the sleep habit hold of it, and the
  preview of that untouched log never lists the wake-up habit as missing.
\<close>

theorem fresh_log_sleep_satisfied:
  assumes "wakeupTarget ds \<noteq> []"
      and "dp (wakeupTarget ds) \<noteq> None"
      and "find (\<lambda>l. date l = todayStr) dailyLogs = None"
  shows "wakeUp (createTodayLog ds dailyLogs todayStr) = Some (wakeupTarget ds)
       \<and> wasWakeupOnTime ds dp (Some (createTodayLog ds dailyLogs todayStr))
       \<and> isHabitValidated ds dp ''sleep'' (Some (createTodayLog ds dailyLogs todayStr))
       \<and> ''Wake-up'' \<notin> set (missingHabits
             (previewFinalState sa ds dp (Some (createTodayLog ds dailyLogs todayStr))))"
proof -
  let ?l = "createTodayLog ds dailyLogs todayStr"
  have w: "wakeUp ?l = Some (wakeupTarget ds)"
    using assms(3) by (simp add: createTodayLog_def)
  obtain t where t: "dp (wakeupTarget ds) = Some t" using assms(2) by blast
  have on_time: "wasWakeupOnTime ds dp (Some ?l)"
    using w assms(1) t by (simp add: wasWakeupOnTime_def)
  then have valid: "isHabitValidated ds dp ''sleep'' (Some ?l)"
    by (simp add: isHabitValidated_def)
  have sub: "set (getEnabledRequiredHabits sa)
               \<subseteq> {''learning'', ''gym'', ''sleep'', ''screenTime''}"
    by (auto simp add: getEnabledRequiredHabits_def Let_def split: if_splits)
  have "''Wake-up'' \<notin> set (missingHabits (previewFinalState sa ds dp (Some ?l)))"
  proof
    assume "''Wake-up'' \<in> set (missingHabits (previewFinalState sa ds dp (Some ?l)))"
    then have "''Wake-up'' \<in> set (snd (preview_loop (\<lambda>h. isHabitValidated ds dp h (Some ?l))
                  (getEnabledRequiredHabits sa) (True, [])))"
      by (simp add: previewFinalState_def Let_def split: prod.splits)
    then obtain h where h: "h \<in> set (getEnabledRequiredHabits sa)"
        "\<not> isHabitValidated ds dp h (Some ?l)" "getHabitDisplayName h = ''Wake-up''"
      by (auto simp add: preview_loop_snd)
    from h(1) sub h(3) have "h = ''sleep''" by (auto simp add: getHabitDisplayName_def)
    with h(2) valid show False by simp
  qed
  with w on_time valid show ?thesis by simp
qed

theorem fresh_log_sleep_satisfied_witness:
  "wakeupTarget default_dash_settings \<noteq> []
   \<and> parseClock (wakeupTarget default_dash_settings) \<noteq> None
   \<and> find (\<lambda>l. date l = ''2024-03-02'') [full_log] = None
   \<and> wasWakeupOnTime default_dash_settings parseClock
        (Some (createTodayLog default_dash_settings [full_log] ''2024-03-02''))
   \<and> missingHabits (previewFinalState None default_dash_settings parseClock
        (Some (createTodayLog default_dash_settings [full_log] ''2024-03-02'')))
       = [''Learning'', ''Workout'']"
proof -
  have a: "wakeupTarget default_dash_settings \<noteq> []" by code_simp
  have b: "parseClock (wakeupTarget default_dash_settings) \<noteq> None" by code_simp
  have c: "find (\<lambda>l. date l = ''2024-03-02'') [full_log] = None" by code_simp
  have m: "missingHabits (previewFinalState None default_dash_settings parseClock
        (Some (createTodayLog default_dash_settings [full_log] ''2024-03-02'')))
       = [''Learning'', ''Workout'']" by code_simp
  from fresh_log_sleep_satisfied [where ds = default_dash_settings and dp = parseClock
      and todayStr = "''2024-03-02''" and dailyLogs = "[full_log]" and sa = None, OF a b c]
  show ?thesis using a b c m by simp
qed

end
